theory Spec2Isabelle
  imports Complex_Main "HOL-Library.Sublist" "HOL-Library.Multiset"
begin

section \<open>CodeCrawl: line metrics of a source tree (index.js)\<close>

text \<open>
  The program walks a directory, classifies the lines of every eligible file and sums the
  counts. Strings are \<open>string\<close>: one \<open>char\<close> stands for one code unit of a JavaScript
  string, so the development speaks of the strings whose code units are below 256. Counts
  are JavaScript numbers holding non-negative integers, which add exactly below \<open>2^53\<close>;
  they are \<open>nat\<close> here.
\<close>

subsection \<open>String operations of the JavaScript runtime\<close>

text \<open>
  \<open>String.prototype.trim\<close> removes white space and line terminators from both ends.
  Below 256 these are TAB, LF, VT, FF, CR, SPACE and NBSP.
\<close>

definition isWhiteSpace :: "char \<Rightarrow> bool" where
  "isWhiteSpace c =
     (c = CHR 0x09 \<or> c = CHR 0x0A \<or> c = CHR 0x0B \<or> c = CHR 0x0C \<or> c = CHR 0x0D
      \<or> c = CHR 0x20 \<or> c = CHR 0xA0)"

definition trim :: "string \<Rightarrow> string" where
  "trim s = rev (dropWhile isWhiteSpace (rev (dropWhile isWhiteSpace s)))"

text \<open>
  \<open>s.startsWith(p)\<close>, \<open>s.endsWith(p)\<close> and \<open>s.includes(p)\<close>; the last is
  \<open>includes_str\<close>, its own name being reserved.
\<close>

definition startsWith :: "string \<Rightarrow> string \<Rightarrow> bool" where
  "startsWith s p = (take (length p) s = p)"

definition endsWith :: "string \<Rightarrow> string \<Rightarrow> bool" where
  "endsWith s p = (length p \<le> length s \<and> drop (length s - length p) s = p)"

fun includes_str :: "string \<Rightarrow> string \<Rightarrow> bool" where
  "includes_str [] p = (p = [])"
| "includes_str (c # cs) p = (startsWith (c # cs) p \<or> includes_str cs p)"

text \<open>
  \<open>s.split(sep)\<close> for a separator of one character: the pieces between the separators; a
  string without one, the empty string too, is one piece, and a final separator leaves a
  final empty piece.
\<close>

fun split_str :: "char \<Rightarrow> string \<Rightarrow> string list" where
  "split_str sep [] = [[]]"
| "split_str sep (c # cs) =
     (if c = sep then [] # split_str sep cs
      else (case split_str sep cs of [] \<Rightarrow> [[c]] | l # ls \<Rightarrow> (c # l) # ls))"

text \<open>\<open>ls.join(sep)\<close>: the separator between each two neighbours, none at the ends.\<close>

fun join_str :: "string \<Rightarrow> string list \<Rightarrow> string" where
  "join_str sep [] = []"
| "join_str sep [l] = l"
| "join_str sep (l # k # ls) = l @ sep @ join_str sep (k # ls)"

subsection \<open>getFileMetrics\<close>

datatype error = ReaddirError string | LstatError string | ReadFileError string

record FileMetrics =
  lines :: nat
  characters :: nat
  commentLines :: nat
  blankLines :: nat
  codeAndCommentLines :: nat
  totalLines :: nat

text \<open>The four predicates handed to \<open>lines.filter\<close>; a string is truthy iff it is not empty.\<close>

definition isNonCommentNonEmpty :: "string \<Rightarrow> bool" where
  "isNonCommentNonEmpty line =
     (let trimmedLine = trim line
      in trimmedLine \<noteq> [] \<and> \<not> startsWith trimmedLine ''//''
         \<and> \<not> startsWith trimmedLine ''/*'' \<and> \<not> endsWith trimmedLine ''*/'')"

definition isComment :: "string \<Rightarrow> bool" where
  "isComment line =
     (let trimmedLine = trim line
      in startsWith trimmedLine ''//'' \<or> startsWith trimmedLine ''/*''
         \<or> endsWith trimmedLine ''*/'')"

definition isBlank :: "string \<Rightarrow> bool" where
  "isBlank line = (\<not> (trim line \<noteq> []))"

definition isCodeAndComment :: "string \<Rightarrow> bool" where
  "isCodeAndComment line =
     (let trimmedLine = trim line
      in trimmedLine \<noteq> [] \<and> (includes_str trimmedLine ''//'' \<or> includes_str trimmedLine ''/*''
         \<or> includes_str trimmedLine ''*/''))"

text \<open>
  \<open>getFileMetrics filePath rd\<close>: \<open>rd\<close> is what \<open>fs.readFileSync(filePath, 'utf-8')\<close>
  gives, \<open>None\<close> when it throws.
\<close>

definition getFileMetrics :: "string \<Rightarrow> string option \<Rightarrow> error + FileMetrics" where
  "getFileMetrics filePath rd =
     (case rd of
        None \<Rightarrow> Inl (ReadFileError filePath)
      | Some content \<Rightarrow>
          (let lns = split_str (CHR 0x0A) content;
               nonCommentNonEmptyLines = filter isNonCommentNonEmpty lns;
               commentLs = filter isComment lns;
               blankLs = filter isBlank lns;
               codeAndCommentLs = filter isCodeAndComment lns;
               chars = length (join_str [CHR 0x0A] nonCommentNonEmptyLines)
           in Inr \<lparr> lines = length nonCommentNonEmptyLines,
                    characters = chars,
                    commentLines = length commentLs,
                    blankLines = length blankLs,
                    codeAndCommentLines = length codeAndCommentLs,
                    totalLines = length lns \<rparr>))"

subsection \<open>Paths: the POSIX functions of Node's \<open>path\<close> module\<close>

text \<open>
  \<open>path.basename\<close>, \<open>path.extname\<close> and \<open>path.join\<close> belong to the runtime, not to
  the program; they are written here after their documented behaviour on POSIX systems.
  \<open>basename\<close> drops the slashes at the end and keeps what follows the last slash left.
\<close>

definition basename :: "string \<Rightarrow> string" where
  "basename p =
     rev (takeWhile (\<lambda>c. c \<noteq> CHR ''/'') (dropWhile (\<lambda>c. c = CHR ''/'') (rev p)))"

text \<open>
  \<open>extname\<close> is the part of the base name from its last dot on; it is empty when the base
  name has no dot, when its only dot is its first character, and when it is \<open>..\<close>.
\<close>

definition extname :: "string \<Rightarrow> string" where
  "extname p =
     (let b = basename p;
          e = CHR ''.'' # rev (takeWhile (\<lambda>c. c \<noteq> CHR ''.'') (rev b))
      in if CHR ''.'' \<notin> set b \<or> length e = length b \<or> b = ''..'' then [] else e)"

text \<open>
  \<open>path.normalize\<close> walks the segments between the slashes: empty segments and \<open>.\<close> are
  dropped, \<open>..\<close> removes the segment before it, or stays when there is none to remove and
  the path is relative. \<open>res\<close> holds the segments kept so far, the last one first.
\<close>

fun normalizeSegments :: "bool \<Rightarrow> string list \<Rightarrow> string list \<Rightarrow> string list" where
  "normalizeSegments allowAboveRoot [] res = rev res"
| "normalizeSegments allowAboveRoot (s # ss) res =
     (if s = [] \<or> s = ''.'' then normalizeSegments allowAboveRoot ss res
      else if s = ''..'' then
        (if res \<noteq> [] \<and> hd res \<noteq> ''..'' then normalizeSegments allowAboveRoot ss (tl res)
         else if allowAboveRoot then normalizeSegments allowAboveRoot ss (''..'' # res)
         else normalizeSegments allowAboveRoot ss res)
      else normalizeSegments allowAboveRoot ss (s # res))"

definition normalize :: "string \<Rightarrow> string" where
  "normalize p =
     (if p = [] then ''.''
      else
        (let isAbsolute = (hd p = CHR ''/'');
             trailingSeparator = (last p = CHR ''/'');
             q = join_str ''/'' (normalizeSegments (\<not> isAbsolute) (split_str (CHR ''/'') p) [])
         in if q = [] then (if isAbsolute then ''/'' else if trailingSeparator then ''./'' else ''.'')
            else (if isAbsolute then ''/'' else []) @ q @ (if trailingSeparator then ''/'' else [])))"

text \<open>\<open>path.join(a, b)\<close>: the non-empty arguments joined by a slash, then normalised.\<close>

definition path_join :: "string \<Rightarrow> string \<Rightarrow> string" where
  "path_join a b =
     (if a = [] \<and> b = [] then ''.''
      else normalize (if a = [] then b else if b = [] then a else a @ ''/'' @ b))"

subsection \<open>isValidFile\<close>

definition defaultIgnoreDirs :: "string list" where
  "defaultIgnoreDirs = [''node_modules'', ''dist'', ''tests'']"

definition prismaSchema :: string where
  "prismaSchema = ''schema.prisma''"

definition isValidFile :: "string \<Rightarrow> bool" where
  "isValidFile filePath =
     (let ext = extname filePath;
          baseName = basename filePath
      in (ext = ''.js'' \<or> ext = ''.ts'' \<or> baseName = prismaSchema)
         \<and> \<not> list_ex (\<lambda>dir. includes_str filePath dir) defaultIgnoreDirs)"

subsection \<open>The directory tree and processDirectory\<close>

text \<open>
  What the walk sees of the file system. An entry of a listing is what \<open>fs.lstatSync\<close>
  says of it, without following links: a symbolic link (with its target, which
  \<open>lstatSync\<close> does not look at), a directory, anything else, or nothing, when
  \<open>lstatSync\<close> throws (the entry vanished after the listing, or the directory may be read
  but not searched). A directory carries what \<open>fs.readdirSync\<close> gives for it, \<open>None\<close> when
  it throws; any other file carries what \<open>fs.readFileSync\<close> gives. Directories contain
  directories only as entries, so the tree is finite; a cycle can only pass through a
  symbolic link, which is a leaf here as it is for \<open>lstatSync\<close>.
\<close>

datatype node =
    LstatThrows
  | SymbolicLink string
  | Directory "(string \<times> node) list option"
  | OtherFile "string option"

type_synonym listing = "(string \<times> node) list"

record AggregateMetrics =
  totalLines :: nat
  totalCharacters :: nat
  commentLines :: nat
  blankLines :: nat
  codeAndCommentLines :: nat
  fileCount :: nat
  directoryCount :: nat

text \<open>The seven counters of a call, all zero at its start.\<close>

definition zeroMetrics :: AggregateMetrics where
  "zeroMetrics =
     \<lparr> AggregateMetrics.totalLines = 0, totalCharacters = 0,
       AggregateMetrics.commentLines = 0, AggregateMetrics.blankLines = 0,
       AggregateMetrics.codeAndCommentLines = 0, fileCount = 0, directoryCount = 0 \<rparr>"

text \<open>The counters after a subdirectory: one more directory, and what its walk returned.\<close>

definition addDirectory :: "AggregateMetrics \<Rightarrow> AggregateMetrics \<Rightarrow> AggregateMetrics" where
  "addDirectory acc r =
     \<lparr> AggregateMetrics.totalLines = AggregateMetrics.totalLines acc + AggregateMetrics.totalLines r,
       totalCharacters = totalCharacters acc + totalCharacters r,
       AggregateMetrics.commentLines =
         AggregateMetrics.commentLines acc + AggregateMetrics.commentLines r,
       AggregateMetrics.blankLines = AggregateMetrics.blankLines acc + AggregateMetrics.blankLines r,
       AggregateMetrics.codeAndCommentLines =
         AggregateMetrics.codeAndCommentLines acc + AggregateMetrics.codeAndCommentLines r,
       fileCount = fileCount acc + fileCount r,
       directoryCount = directoryCount acc + 1 + directoryCount r \<rparr>"

text \<open>
  The counters after an eligible file. Of the six fields of its metrics five are read;
  \<open>totalLines\<close> of the file is not among them, and the counter \<open>totalLines\<close> grows by the
  file's \<open>lines\<close>.
\<close>

definition addFile :: "AggregateMetrics \<Rightarrow> FileMetrics \<Rightarrow> AggregateMetrics" where
  "addFile acc m =
     \<lparr> AggregateMetrics.totalLines = AggregateMetrics.totalLines acc + lines m,
       totalCharacters = totalCharacters acc + characters m,
       AggregateMetrics.commentLines =
         AggregateMetrics.commentLines acc + FileMetrics.commentLines m,
       AggregateMetrics.blankLines = AggregateMetrics.blankLines acc + FileMetrics.blankLines m,
       AggregateMetrics.codeAndCommentLines =
         AggregateMetrics.codeAndCommentLines acc + FileMetrics.codeAndCommentLines m,
       fileCount = fileCount acc + 1,
       directoryCount = directoryCount acc \<rparr>"

text \<open>
  \<open>processDirectory dir rd\<close>: \<open>rd\<close> is what \<open>fs.readdirSync(dir)\<close> gives, with the subtree
  below. \<open>forEachFile\<close> is \<open>files.forEach\<close> with its callback: it runs over the entries
  left, the counters in \<open>acc\<close>; an exception ends the loop and the call, and the counters
  are lost.
\<close>

function processDirectory :: "string \<Rightarrow> listing option \<Rightarrow> error + AggregateMetrics"
  and forEachFile :: "string \<Rightarrow> listing \<Rightarrow> AggregateMetrics \<Rightarrow> error + AggregateMetrics"
where
  "processDirectory dir None = Inl (ReaddirError dir)"
| "processDirectory dir (Some files) = forEachFile dir files zeroMetrics"
| "forEachFile dir [] acc = Inr acc"
| "forEachFile dir ((file, LstatThrows) # rest) acc = Inl (LstatError (path_join dir file))"
| "forEachFile dir ((file, SymbolicLink target) # rest) acc = forEachFile dir rest acc"
| "forEachFile dir ((file, Directory rd) # rest) acc =
     (case processDirectory (path_join dir file) rd of
        Inl e \<Rightarrow> Inl e
      | Inr r \<Rightarrow> forEachFile dir rest (addDirectory acc r))"
| "forEachFile dir ((file, OtherFile rd) # rest) acc =
     (if isValidFile (path_join dir file) then
        (case getFileMetrics (path_join dir file) rd of
           Inl e \<Rightarrow> Inl e
         | Inr m \<Rightarrow> forEachFile dir rest (addFile acc m))
      else forEachFile dir rest acc)"
  by pat_completeness auto
termination
  by (relation "measure (case_sum
        (\<lambda>(dir, rd). size_option (size_list (size_prod (\<lambda>_. 0) size)) rd)
        (\<lambda>(dir, files, acc). size_list (size_prod (\<lambda>_. 0) size) files))") auto

subsection \<open>The averages of printMetrics\<close>

text \<open>
  A quotient of two counts in JavaScript: \<open>0 / 0\<close> is \<open>NaN\<close> and \<open>n / 0\<close> is \<open>Infinity\<close>
  for a positive \<open>n\<close>; otherwise it is the quotient, taken here without the rounding of
  the floating-point division.
\<close>

datatype jsnumber = Finite real | NaN | Infinity

definition js_div :: "nat \<Rightarrow> nat \<Rightarrow> jsnumber" where
  "js_div a b = (if b = 0 then (if a = 0 then NaN else Infinity) else Finite (real a / real b))"

record Averages =
  avgLinesPerFile :: jsnumber
  avgCharactersPerFile :: jsnumber
  avgCommentLinesPerFile :: jsnumber
  avgBlankLinesPerFile :: jsnumber
  avgCodeAndCommentLinesPerFile :: jsnumber

text \<open>The five constants that \<open>printMetrics\<close> computes from the metrics before it draws the table.\<close>

definition averages :: "AggregateMetrics \<Rightarrow> Averages" where
  "averages metrics =
     \<lparr> avgLinesPerFile =
         (if fileCount metrics > 0
          then js_div (AggregateMetrics.totalLines metrics) (fileCount metrics) else Finite 0),
       avgCharactersPerFile =
         (if fileCount metrics > 0
          then js_div (totalCharacters metrics) (fileCount metrics) else Finite 0),
       avgCommentLinesPerFile =
         (if fileCount metrics > 0
          then js_div (AggregateMetrics.commentLines metrics) (fileCount metrics) else Finite 0),
       avgBlankLinesPerFile =
         (if fileCount metrics > 0
          then js_div (AggregateMetrics.blankLines metrics) (fileCount metrics) else Finite 0),
       avgCodeAndCommentLinesPerFile =
         (if fileCount metrics > 0
          then js_div (AggregateMetrics.codeAndCommentLines metrics) (fileCount metrics)
          else Finite 0) \<rparr>"


section \<open>The specification's notions\<close>

subsection \<open>Line classes in the words of the specification\<close>

text \<open>
  A line is a comment when its trimmed form starts with \<open>//\<close> or \<open>/*\<close> or ends with
  \<open>*/\<close>; blank when its trimmed form is empty; code when it is neither; mixed when it is
  not blank and a marker occurs anywhere in the line as it stands, untrimmed.
\<close>

definition spec_comment :: "string \<Rightarrow> bool" where
  "spec_comment line =
     (prefix ''//'' (trim line) \<or> prefix ''/*'' (trim line) \<or> suffix ''*/'' (trim line))"

definition spec_blank :: "string \<Rightarrow> bool" where
  "spec_blank line = (trim line = [])"

definition spec_code :: "string \<Rightarrow> bool" where
  "spec_code line = (\<not> spec_blank line \<and> \<not> spec_comment line)"

definition spec_mixed :: "string \<Rightarrow> bool" where
  "spec_mixed line =
     (\<not> spec_blank line \<and> (sublist ''//'' line \<or> sublist ''/*'' line \<or> sublist ''*/'' line))"

text \<open>The file of the specification's example: four lines, each ended by a newline.\<close>

definition exampleContent :: string where
  "exampleContent =
     ''// header comment\<newline>const x = 1; // trailing\<newline>\<newline>function f() {}\<newline>''"

subsection \<open>Notions about the tree\<close>

text \<open>What a call returned, if it returned.\<close>

definition returned :: "error + 'a \<Rightarrow> 'a option" where
  "returned r = (case r of Inl e \<Rightarrow> None | Inr m \<Rightarrow> Some m)"

text \<open>
  The in-scope files of the subtree below \<open>dir\<close>: the entries that are neither symbolic
  links nor directories and whose path \<open>isValidFile\<close> accepts, in the listing and in every
  directory below it that is not a symbolic link; each with its path and with what reading
  it gives.
\<close>

function inScopeFiles :: "string \<Rightarrow> listing \<Rightarrow> (string \<times> string option) list" where
  "inScopeFiles dir [] = []"
| "inScopeFiles dir ((file, LstatThrows) # rest) = inScopeFiles dir rest"
| "inScopeFiles dir ((file, SymbolicLink target) # rest) = inScopeFiles dir rest"
| "inScopeFiles dir ((file, Directory None) # rest) = inScopeFiles dir rest"
| "inScopeFiles dir ((file, Directory (Some sub)) # rest) =
     inScopeFiles (path_join dir file) sub @ inScopeFiles dir rest"
| "inScopeFiles dir ((file, OtherFile rd) # rest) =
     (if isValidFile (path_join dir file) then (path_join dir file, rd) # inScopeFiles dir rest
      else inScopeFiles dir rest)"
  by pat_completeness auto
termination
  by (relation "measure (\<lambda>(dir, files). size_list (size_prod (\<lambda>_. 0) size) files)") auto

text \<open>A field of the metrics of an in-scope file; 0 stands in for a file that cannot be read.\<close>

definition perFile :: "(FileMetrics \<Rightarrow> nat) \<Rightarrow> string \<times> string option \<Rightarrow> nat" where
  "perFile field f =
     (case getFileMetrics (fst f) (snd f) of Inl e \<Rightarrow> 0 | Inr m \<Rightarrow> field m)"

text \<open>The tree without its symbolic links, at every depth.\<close>

function withoutLinks :: "listing \<Rightarrow> listing" where
  "withoutLinks [] = []"
| "withoutLinks ((file, LstatThrows) # rest) = (file, LstatThrows) # withoutLinks rest"
| "withoutLinks ((file, SymbolicLink target) # rest) = withoutLinks rest"
| "withoutLinks ((file, Directory None) # rest) = (file, Directory None) # withoutLinks rest"
| "withoutLinks ((file, Directory (Some sub)) # rest) =
     (file, Directory (Some (withoutLinks sub))) # withoutLinks rest"
| "withoutLinks ((file, OtherFile rd) # rest) = (file, OtherFile rd) # withoutLinks rest"
  by pat_completeness auto
termination
  by (relation "measure (size_list (size_prod (\<lambda>_. 0) size))") auto

text \<open>The number of directories below the root that are not symbolic links, at every depth.\<close>

function subdirCount :: "listing \<Rightarrow> nat" where
  "subdirCount [] = 0"
| "subdirCount ((file, LstatThrows) # rest) = subdirCount rest"
| "subdirCount ((file, SymbolicLink target) # rest) = subdirCount rest"
| "subdirCount ((file, Directory None) # rest) = 1 + subdirCount rest"
| "subdirCount ((file, Directory (Some sub)) # rest) = 1 + subdirCount sub + subdirCount rest"
| "subdirCount ((file, OtherFile rd) # rest) = subdirCount rest"
  by pat_completeness auto
termination
  by (relation "measure (size_list (size_prod (\<lambda>_. 0) size))") auto

text \<open>
  \<open>reordering files files'\<close>: \<open>files'\<close> is \<open>files\<close> with the listing of each directory, the
  root's too, in another order.
\<close>

inductive reordering :: "listing \<Rightarrow> listing \<Rightarrow> bool" where
  empty: "reordering [] []"
| entry: "reordering rest rest' \<Longrightarrow> reordering ((file, n) # rest) ((file, n) # rest')"
| subdirectory:
    "reordering sub sub' \<Longrightarrow> reordering rest rest' \<Longrightarrow>
       reordering ((file, Directory (Some sub)) # rest) ((file, Directory (Some sub')) # rest')"
| permute: "reordering files files' \<Longrightarrow> mset files'' = mset files' \<Longrightarrow> reordering files files''"

text \<open>
  What makes the walk fail below a root that could be listed: an entry whose \<open>lstatSync\<close>
  throws, a directory that cannot be listed, or an eligible file that cannot be read.
\<close>

function walkFault :: "string \<Rightarrow> listing \<Rightarrow> bool" where
  "walkFault dir [] = False"
| "walkFault dir ((file, LstatThrows) # rest) = True"
| "walkFault dir ((file, SymbolicLink target) # rest) = walkFault dir rest"
| "walkFault dir ((file, Directory None) # rest) = True"
| "walkFault dir ((file, Directory (Some sub)) # rest) =
     (walkFault (path_join dir file) sub \<or> walkFault dir rest)"
| "walkFault dir ((file, OtherFile rd) # rest) =
     ((isValidFile (path_join dir file) \<and> rd = None) \<or> walkFault dir rest)"
  by pat_completeness auto
termination
  by (relation "measure (\<lambda>(dir, files). size_list (size_prod (\<lambda>_. 0) size) files)") auto

text \<open>
  The same in the words of the specification, which names the directories and the
  eligible files only: an entry whose \<open>lstatSync\<close> throws is not among its causes.
\<close>

function spec_readFault :: "string \<Rightarrow> listing \<Rightarrow> bool" where
  "spec_readFault dir [] = False"
| "spec_readFault dir ((file, LstatThrows) # rest) = spec_readFault dir rest"
| "spec_readFault dir ((file, SymbolicLink target) # rest) = spec_readFault dir rest"
| "spec_readFault dir ((file, Directory None) # rest) = True"
| "spec_readFault dir ((file, Directory (Some sub)) # rest) =
     (spec_readFault (path_join dir file) sub \<or> spec_readFault dir rest)"
| "spec_readFault dir ((file, OtherFile rd) # rest) =
     ((isValidFile (path_join dir file) \<and> rd = None) \<or> spec_readFault dir rest)"
  by pat_completeness auto
termination
  by (relation "measure (\<lambda>(dir, files). size_list (size_prod (\<lambda>_. 0) size) files)") auto

text \<open>Two sets of counters added field by field.\<close>

definition plusMetrics :: "AggregateMetrics \<Rightarrow> AggregateMetrics \<Rightarrow> AggregateMetrics" where
  "plusMetrics a b =
     \<lparr> AggregateMetrics.totalLines = AggregateMetrics.totalLines a + AggregateMetrics.totalLines b,
       totalCharacters = totalCharacters a + totalCharacters b,
       AggregateMetrics.commentLines =
         AggregateMetrics.commentLines a + AggregateMetrics.commentLines b,
       AggregateMetrics.blankLines = AggregateMetrics.blankLines a + AggregateMetrics.blankLines b,
       AggregateMetrics.codeAndCommentLines =
         AggregateMetrics.codeAndCommentLines a + AggregateMetrics.codeAndCommentLines b,
       fileCount = fileCount a + fileCount b,
       directoryCount = directoryCount a + directoryCount b \<rparr>"

text \<open>
  One round of the loop as a function of what the rounds before left: the counters, or
  \<open>None\<close> once an exception was thrown.
\<close>

definition callback :: "string \<Rightarrow> string \<times> node \<Rightarrow> AggregateMetrics option \<Rightarrow> AggregateMetrics option" where
  "callback dir e s = (case s of None \<Rightarrow> None | Some acc \<Rightarrow> returned (forEachFile dir [e] acc))"

text \<open>
  A tree under \<open>/r\<close>: two eligible files, two directories, a file that is not eligible
  and cannot be read, and two symbolic links, one to the root and one to the parent
  directory, each closing a cycle.
\<close>

definition exampleTree :: listing where
  "exampleTree =
     [(''a.js'', OtherFile (Some ''// c'')),
      (''loop'', SymbolicLink ''/r''),
      (''lib'', Directory (Some
         [(''empty'', Directory (Some [])),
          (''up'', SymbolicLink ''..''),
          (''b.ts'', OtherFile (Some ''x\<newline>y''))])),
      (''README.md'', OtherFile None)]"

text \<open>The same tree, the entries of the root and of \<open>lib\<close> in the opposite order.\<close>

definition reorderedTree :: listing where
  "reorderedTree =
     [(''README.md'', OtherFile None),
      (''lib'', Directory (Some
         [(''b.ts'', OtherFile (Some ''x\<newline>y'')),
          (''up'', SymbolicLink ''..''),
          (''empty'', Directory (Some []))])),
      (''loop'', SymbolicLink ''/r''),
      (''a.js'', OtherFile (Some ''// c''))]"

text \<open>What \<open>processDirectory\<close> returns for both.\<close>

definition exampleMetrics :: AggregateMetrics where
  "exampleMetrics =
     \<lparr> AggregateMetrics.totalLines = 2, totalCharacters = 3,
       AggregateMetrics.commentLines = 1, AggregateMetrics.blankLines = 0,
       AggregateMetrics.codeAndCommentLines = 1, fileCount = 2, directoryCount = 2 \<rparr>"

section \<open>Properties\<close>

subsection \<open>The string operations against prefix, suffix and sublist\<close>

lemma startsWith_prefix: "startsWith s p \<longleftrightarrow> prefix p s"
  unfolding startsWith_def
  by (metis append_eq_conv_conj prefix_def)

lemma endsWith_suffix: "endsWith s p \<longleftrightarrow> suffix p s"
  unfolding endsWith_def
  by (metis suffix_def append_eq_conv_conj diff_add_inverse2 length_append suffix_drop suffix_length_le)

lemma includes_sublist: "includes_str s p \<longleftrightarrow> sublist p s"
  by (induction s) (simp_all add: sublist_Cons_right startsWith_prefix)

text \<open>
  Dropping characters at an end of a string that the first or last character of \<open>p\<close> is
  not among neither removes nor creates an occurrence of \<open>p\<close>.
\<close>

lemma sublist_dropWhile:
  assumes "p \<noteq> []" and "\<not> P (hd p)"
  shows "sublist p (dropWhile P s) \<longleftrightarrow> sublist p s"
proof (induction s)
  case Nil
  then show ?case by simp
next
  case (Cons c cs)
  show ?case
  proof (cases "P c")
    case True
    have "\<not> prefix p (c # cs)"
      using assms True by (cases p) auto
    with True Cons show ?thesis
      by (simp add: sublist_Cons_right)
  next
    case False
    then show ?thesis by simp
  qed
qed

lemma sublist_trim:
  assumes "p \<noteq> []" and "\<not> isWhiteSpace (hd p)" and "\<not> isWhiteSpace (last p)"
  shows "sublist p (trim s) \<longleftrightarrow> sublist p s"
proof -
  have "sublist p (trim s) \<longleftrightarrow> sublist (rev p) (dropWhile isWhiteSpace (rev (dropWhile isWhiteSpace s)))"
    unfolding trim_def by (simp add: sublist_rev_right)
  also have "\<dots> \<longleftrightarrow> sublist (rev p) (rev (dropWhile isWhiteSpace s))"
    using assms by (intro sublist_dropWhile) (simp_all add: hd_rev)
  also have "\<dots> \<longleftrightarrow> sublist p (dropWhile isWhiteSpace s)"
    by simp
  also have "\<dots> \<longleftrightarrow> sublist p s"
    using assms by (intro sublist_dropWhile)
  finally show ?thesis .
qed

text \<open>
  The length of a join: the lengths of the pieces, and one separator less than there are
  pieces.
\<close>

lemma length_join_str:
  "length (join_str sep ls) = sum_list (map length ls) + (length ls - 1) * length sep"
  by (induction sep ls rule: join_str.induct) simp_all

subsection \<open>getFileMetrics on the example file\<close>

lemma example_lines:
  "split_str (CHR 0x0A) exampleContent =
     [''// header comment'', ''const x = 1; // trailing'', [], ''function f() {}'', []]"
  by (simp add: exampleContent_def)

text \<open>
  C2, as the specification has it: on the example file \<open>getFileMetrics\<close> would return
  \<open>totalLines = 5\<close>, \<open>blankLines = 1\<close>, \<open>commentLines = 1\<close>, \<open>codeLines = 2\<close>,
  \<open>mixedLines = 1\<close> and the length of lines 2 and 4 joined by a newline as
  \<open>characterCount\<close>. It does not return these metrics.
\<close>

theorem getFileMetrics_example_counterexample:
  "getFileMetrics ''/r/a.js'' (Some exampleContent) \<noteq>
     Inr \<lparr> lines = 2,
           characters = length (''const x = 1; // trailing'' @ [CHR 0x0A] @ ''function f() {}''),
           commentLines = 1, blankLines = 1, codeAndCommentLines = 1, totalLines = 5 \<rparr>"
  by (simp add: getFileMetrics_def example_lines isNonCommentNonEmpty_def isComment_def
      isBlank_def isCodeAndComment_def trim_def isWhiteSpace_def startsWith_def endsWith_def)

text \<open>
  C2, amended: on the example file \<open>getFileMetrics\<close> returns \<open>totalLines = 5\<close>,
  \<open>commentLines = 1\<close>, \<open>codeLines = 2\<close> and the length of lines 2 and 4 joined by a
  newline as \<open>characterCount\<close>, as stated; but \<open>blankLines = 2\<close>, the empty piece after
  the final newline being blank as the third line is, and \<open>mixedLines = 2\<close>, the first
  line containing \<open>//\<close> as the second does.
\<close>

theorem getFileMetrics_example:
  "getFileMetrics filePath (Some exampleContent) =
     Inr \<lparr> lines = 2,
           characters = length (''const x = 1; // trailing'' @ [CHR 0x0A] @ ''function f() {}''),
           commentLines = 1, blankLines = 2, codeAndCommentLines = 2, totalLines = 5 \<rparr>"
  by (simp add: getFileMetrics_def example_lines isNonCommentNonEmpty_def isComment_def
      isBlank_def isCodeAndComment_def trim_def isWhiteSpace_def startsWith_def endsWith_def)

subsection \<open>The classification of a line\<close>

lemma isComment_spec: "isComment line \<longleftrightarrow> spec_comment line"
  by (simp add: isComment_def Let_def spec_comment_def startsWith_prefix endsWith_suffix)

lemma isBlank_spec: "isBlank line \<longleftrightarrow> spec_blank line"
  by (simp add: isBlank_def spec_blank_def)

lemma isNonCommentNonEmpty_spec: "isNonCommentNonEmpty line \<longleftrightarrow> spec_code line"
  by (simp add: isNonCommentNonEmpty_def Let_def spec_code_def spec_blank_def spec_comment_def
      startsWith_prefix endsWith_suffix)

text \<open>
  The source looks for the markers in the trimmed line, the specification in the line as
  it stands. A marker has no white space in it, so trimming neither removes nor creates
  an occurrence.
\<close>

lemma isCodeAndComment_spec: "isCodeAndComment line \<longleftrightarrow> spec_mixed line"
  by (simp add: isCodeAndComment_def Let_def spec_mixed_def spec_blank_def includes_sublist
      sublist_trim isWhiteSpace_def)

text \<open>
  C3: \<open>getFileMetrics\<close> takes a line for a comment iff its trimmed form starts with \<open>//\<close>
  or \<open>/*\<close> or ends with \<open>*/\<close>, for code iff it is neither blank nor a comment, for
  blank iff its trimmed form is empty, and for mixed iff it is not blank and contains a
  marker anywhere; the counts it returns are the numbers of the lines of each class, and
  \<open>characters\<close> is the length of the code lines joined by newlines.
\<close>

theorem getFileMetrics_classification:
  "(\<forall>line. (isComment line \<longleftrightarrow> spec_comment line)
      \<and> (isNonCommentNonEmpty line \<longleftrightarrow> spec_code line)
      \<and> (isBlank line \<longleftrightarrow> spec_blank line)
      \<and> (isCodeAndComment line \<longleftrightarrow> spec_mixed line))
   \<and> getFileMetrics filePath (Some content) =
       Inr \<lparr> lines = length (filter spec_code (split_str (CHR 0x0A) content)),
             characters =
               length (join_str [CHR 0x0A] (filter spec_code (split_str (CHR 0x0A) content))),
             commentLines = length (filter spec_comment (split_str (CHR 0x0A) content)),
             blankLines = length (filter spec_blank (split_str (CHR 0x0A) content)),
             codeAndCommentLines = length (filter spec_mixed (split_str (CHR 0x0A) content)),
             totalLines = length (split_str (CHR 0x0A) content) \<rparr>"
proof -
  have "isComment = spec_comment" "isNonCommentNonEmpty = spec_code" "isBlank = spec_blank"
    "isCodeAndComment = spec_mixed"
    by (simp_all add: fun_eq_iff isComment_spec isNonCommentNonEmpty_spec isBlank_spec
        isCodeAndComment_spec)
  then show ?thesis
    by (simp add: getFileMetrics_def Let_def)
qed

text \<open>
  C3 at a line with white space around it: \<open>x = 1; /* c */\<close>, indented and followed by a
  blank, ends with \<open>*/\<close> once trimmed, so it is a comment, not code, and it is mixed.
\<close>

theorem getFileMetrics_classification_witness:
  "spec_comment ''  x = 1; /* c */ '' \<and> \<not> spec_code ''  x = 1; /* c */ ''
   \<and> \<not> spec_blank ''  x = 1; /* c */ '' \<and> spec_mixed ''  x = 1; /* c */ ''"
proof -
  note c = getFileMetrics_classification [of "[]" "[]", THEN conjunct1, THEN spec,
      of "''  x = 1; /* c */ ''"]
  have "isComment ''  x = 1; /* c */ ''"
    by code_simp
  moreover have "\<not> isNonCommentNonEmpty ''  x = 1; /* c */ ''"
    by code_simp
  moreover have "\<not> isBlank ''  x = 1; /* c */ ''"
    by code_simp
  moreover have "isCodeAndComment ''  x = 1; /* c */ ''"
    by code_simp
  ultimately show ?thesis
    using c by (simp only: simp_thms)
qed

text \<open>
  The three filters split any list of lines: every line is kept by exactly one of them.
\<close>

lemma line_in_one_class:
  "(isBlank line \<and> \<not> isComment line \<and> \<not> isNonCommentNonEmpty line)
   \<or> (\<not> isBlank line \<and> isComment line \<and> \<not> isNonCommentNonEmpty line)
   \<or> (\<not> isBlank line \<and> \<not> isComment line \<and> isNonCommentNonEmpty line)"
  by (auto simp: isBlank_def isComment_def isNonCommentNonEmpty_def Let_def
      startsWith_def endsWith_def)

lemma filters_partition:
  "mset (filter isBlank ls) + mset (filter isComment ls) + mset (filter isNonCommentNonEmpty ls)
     = mset ls"
proof (induction ls)
  case Nil
  show ?case by simp
next
  case (Cons l ls)
  with line_in_one_class [of l] show ?case by auto
qed

lemma filters_count:
  "length (filter isBlank ls) + length (filter isComment ls)
     + length (filter isNonCommentNonEmpty ls) = length ls"
proof (induction ls)
  case Nil
  show ?case by simp
next
  case (Cons l ls)
  with line_in_one_class [of l] show ?case by auto
qed

text \<open>
  C10: blank, comment and code are a partition of the lines of the file: every line is in
  exactly one of the three classes, the lines of the file are those kept by the blank
  filter, those kept by the comment filter and those kept by the code filter together,
  each line as often as it occurs; \<open>getFileMetrics\<close> returns as \<open>blankLines\<close>,
  \<open>commentLines\<close> and \<open>lines\<close> the numbers of the lines of the file in each class and as
  \<open>totalLines\<close> the number of its lines, so
  \<open>blankLines + commentLines + codeLines = totalLines\<close> for every file.
\<close>

theorem getFileMetrics_partition:
  "(\<forall>line. (isBlank line \<and> \<not> isComment line \<and> \<not> isNonCommentNonEmpty line)
        \<or> (\<not> isBlank line \<and> isComment line \<and> \<not> isNonCommentNonEmpty line)
        \<or> (\<not> isBlank line \<and> \<not> isComment line \<and> isNonCommentNonEmpty line))
   \<and> mset (filter isBlank (split_str (CHR 0x0A) content))
       + mset (filter isComment (split_str (CHR 0x0A) content))
       + mset (filter isNonCommentNonEmpty (split_str (CHR 0x0A) content))
       = mset (split_str (CHR 0x0A) content)
   \<and> (\<exists>m. getFileMetrics filePath (Some content) = Inr m
        \<and> FileMetrics.blankLines m = length (filter isBlank (split_str (CHR 0x0A) content))
        \<and> FileMetrics.commentLines m = length (filter isComment (split_str (CHR 0x0A) content))
        \<and> lines m = length (filter isNonCommentNonEmpty (split_str (CHR 0x0A) content))
        \<and> FileMetrics.totalLines m = length (split_str (CHR 0x0A) content)
        \<and> FileMetrics.blankLines m + FileMetrics.commentLines m + lines m
            = FileMetrics.totalLines m)"
proof (intro conjI allI)
  fix line
  show "(isBlank line \<and> \<not> isComment line \<and> \<not> isNonCommentNonEmpty line)
        \<or> (\<not> isBlank line \<and> isComment line \<and> \<not> isNonCommentNonEmpty line)
        \<or> (\<not> isBlank line \<and> \<not> isComment line \<and> isNonCommentNonEmpty line)"
    by (rule line_in_one_class)
next
  show "mset (filter isBlank (split_str (CHR 0x0A) content))
       + mset (filter isComment (split_str (CHR 0x0A) content))
       + mset (filter isNonCommentNonEmpty (split_str (CHR 0x0A) content))
       = mset (split_str (CHR 0x0A) content)"
    by (rule filters_partition)
next
  from filters_count [of "split_str (CHR 0x0A) content"]
  show "\<exists>m. getFileMetrics filePath (Some content) = Inr m
        \<and> FileMetrics.blankLines m = length (filter isBlank (split_str (CHR 0x0A) content))
        \<and> FileMetrics.commentLines m = length (filter isComment (split_str (CHR 0x0A) content))
        \<and> lines m = length (filter isNonCommentNonEmpty (split_str (CHR 0x0A) content))
        \<and> FileMetrics.totalLines m = length (split_str (CHR 0x0A) content)
        \<and> FileMetrics.blankLines m + FileMetrics.commentLines m + lines m
            = FileMetrics.totalLines m"
    by (simp add: getFileMetrics_def Let_def)
qed

text \<open>
  C10 at the example file: of its five lines two are blank, one is a comment and two are
  code; its second line is code and neither a comment nor blank.
\<close>

theorem getFileMetrics_partition_witness:
  "isNonCommentNonEmpty ''const x = 1; // trailing'' \<and> \<not> isComment ''const x = 1; // trailing''
   \<and> \<not> isBlank ''const x = 1; // trailing''
   \<and> length (filter isBlank (split_str (CHR 0x0A) exampleContent)) = 2
   \<and> length (filter isComment (split_str (CHR 0x0A) exampleContent)) = 1
   \<and> length (filter isNonCommentNonEmpty (split_str (CHR 0x0A) exampleContent)) = 2
   \<and> length (split_str (CHR 0x0A) exampleContent) = 5
   \<and> (\<exists>m. getFileMetrics ''/r/a.js'' (Some exampleContent) = Inr m
        \<and> FileMetrics.blankLines m = length (filter isBlank (split_str (CHR 0x0A) exampleContent))
        \<and> FileMetrics.commentLines m
            = length (filter isComment (split_str (CHR 0x0A) exampleContent))
        \<and> lines m = length (filter isNonCommentNonEmpty (split_str (CHR 0x0A) exampleContent))
        \<and> FileMetrics.totalLines m = length (split_str (CHR 0x0A) exampleContent)
        \<and> FileMetrics.blankLines m + FileMetrics.commentLines m + lines m
            = FileMetrics.totalLines m)"
proof -
  note p = getFileMetrics_partition [of exampleContent "''/r/a.js''"]
  have a: "isNonCommentNonEmpty ''const x = 1; // trailing''"
    by code_simp
  have b: "\<not> isComment ''const x = 1; // trailing''"
    by code_simp
  have c: "\<not> isBlank ''const x = 1; // trailing''"
    by code_simp
  have d: "length (filter isBlank (split_str (CHR 0x0A) exampleContent)) = 2"
    by code_simp
  have e: "length (filter isComment (split_str (CHR 0x0A) exampleContent)) = 1"
    by code_simp
  have f: "length (filter isNonCommentNonEmpty (split_str (CHR 0x0A) exampleContent)) = 2"
    by code_simp
  have g: "length (split_str (CHR 0x0A) exampleContent) = 5"
    by code_simp
  show ?thesis
    by (intro conjI a b c d e f g conjunct2 [OF conjunct2 [OF p]])
qed

subsection \<open>isValidFile\<close>

text \<open>
  C4: \<open>isValidFile p\<close> holds iff the extension of \<open>p\<close> is \<open>.js\<close> or \<open>.ts\<close> or its base name
  is \<open>schema.prisma\<close>, and none of \<open>node_modules\<close>, \<open>dist\<close>, \<open>tests\<close> occurs in \<open>p\<close> as a
  substring, wherever in the path; so \<open>/tmp/xnode_modulesy/app.js\<close> is excluded.
\<close>

theorem isValidFile_iff:
  "(isValidFile p \<longleftrightarrow>
      (extname p = ''.js'' \<or> extname p = ''.ts'' \<or> basename p = ''schema.prisma'')
      \<and> \<not> (sublist ''node_modules'' p \<or> sublist ''dist'' p \<or> sublist ''tests'' p))
   \<and> \<not> isValidFile ''/tmp/xnode_modulesy/app.js''"
proof -
  have "isValidFile p \<longleftrightarrow>
      (extname p = ''.js'' \<or> extname p = ''.ts'' \<or> basename p = ''schema.prisma'')
      \<and> \<not> (sublist ''node_modules'' p \<or> sublist ''dist'' p \<or> sublist ''tests'' p)"
    by (simp add: isValidFile_def Let_def defaultIgnoreDirs_def prismaSchema_def
        includes_sublist)
  moreover have "\<not> isValidFile ''/tmp/xnode_modulesy/app.js''"
    by code_simp
  ultimately show ?thesis by (rule conjI)
qed

text \<open>C4 at \<open>/r/a.js\<close>, which is valid: its extension is \<open>.js\<close> and no ignored name occurs in it.\<close>

theorem isValidFile_iff_witness:
  "isValidFile ''/r/a.js''
   \<and> (extname ''/r/a.js'' = ''.js'' \<or> extname ''/r/a.js'' = ''.ts''
        \<or> basename ''/r/a.js'' = ''schema.prisma'')
   \<and> \<not> (sublist ''node_modules'' ''/r/a.js'' \<or> sublist ''dist'' ''/r/a.js''
        \<or> sublist ''tests'' ''/r/a.js'')"
proof -
  have "isValidFile ''/r/a.js''"
    by code_simp
  with isValidFile_iff [of "''/r/a.js''"] show ?thesis
    by (simp only: simp_thms)
qed

subsection \<open>The averages\<close>

text \<open>
  Without the test of \<open>fileCount\<close> the averages of a tree with no eligible file would be
  \<open>0 / 0\<close>.
\<close>

lemma js_div_zero_zero: "js_div 0 0 = NaN"
  by (simp add: js_div_def)

text \<open>
  C8: when \<open>fileCount\<close> is 0, each of the five averages that \<open>printMetrics\<close> computes is
  exactly 0; none is \<open>NaN\<close>, and nothing is divided.
\<close>

theorem averages_zero:
  "fileCount metrics = 0 \<Longrightarrow>
     averages metrics =
       \<lparr> avgLinesPerFile = Finite 0, avgCharactersPerFile = Finite 0,
         avgCommentLinesPerFile = Finite 0, avgBlankLinesPerFile = Finite 0,
         avgCodeAndCommentLinesPerFile = Finite 0 \<rparr>"
  by (simp add: averages_def)

text \<open>C8 at the metrics of a tree of three directories and no eligible file.\<close>

theorem averages_zero_witness:
  "fileCount (zeroMetrics\<lparr>directoryCount := 3\<rparr>) = 0
   \<and> averages (zeroMetrics\<lparr>directoryCount := 3\<rparr>) =
       \<lparr> avgLinesPerFile = Finite 0, avgCharactersPerFile = Finite 0,
         avgCommentLinesPerFile = Finite 0, avgBlankLinesPerFile = Finite 0,
         avgCodeAndCommentLinesPerFile = Finite 0 \<rparr>"
proof -
  have h: "fileCount (zeroMetrics\<lparr>directoryCount := 3\<rparr>) = 0"
    by (simp add: zeroMetrics_def)
  from h averages_zero [OF h] show ?thesis by simp
qed

subsection \<open>Induction over a tree\<close>

lemma listing_induct [case_names Nil LstatThrows SymbolicLink Unlistable Directory OtherFile]:
  fixes P :: "listing \<Rightarrow> bool"
  assumes "P []"
    and "\<And>file rest. P rest \<Longrightarrow> P ((file, LstatThrows) # rest)"
    and "\<And>file target rest. P rest \<Longrightarrow> P ((file, SymbolicLink target) # rest)"
    and "\<And>file rest. P rest \<Longrightarrow> P ((file, Directory None) # rest)"
    and "\<And>file sub rest. P sub \<Longrightarrow> P rest \<Longrightarrow> P ((file, Directory (Some sub)) # rest)"
    and "\<And>file rd rest. P rest \<Longrightarrow> P ((file, OtherFile rd) # rest)"
  shows "P files"
proof (induction files rule: measure_induct_rule [of "size_list (size_prod (\<lambda>_. 0) size)"])
  case (less files)
  show ?case
  proof (cases files)
    case Nil
    with assms(1) show ?thesis by simp
  next
    case (Cons e rest)
    obtain name n where e: "e = (name, n)" by (cases e)
    have rest: "P rest"
      by (rule less) (simp add: Cons)
    show ?thesis
    proof (cases n)
      case LstatThrows
      with assms(2) rest Cons e show ?thesis by simp
    next
      case (SymbolicLink target)
      with assms(3) rest Cons e show ?thesis by simp
    next
      case (Directory rd)
      show ?thesis
      proof (cases rd)
        case None
        with assms(4) rest Cons e Directory show ?thesis by simp
      next
        case (Some sub)
        have "P sub"
          by (rule less) (simp add: Cons e Directory Some)
        with assms(5) rest Cons e Directory Some show ?thesis by simp
      qed
    next
      case (OtherFile rd)
      with assms(6) rest Cons e show ?thesis by simp
    qed
  qed
qed

subsection \<open>The sums of processDirectory\<close>

lemma forEachFile_sums:
  "forEachFile dir files acc = Inr m \<Longrightarrow>
     AggregateMetrics.totalLines m =
       AggregateMetrics.totalLines acc + sum_list (map (perFile lines) (inScopeFiles dir files))
     \<and> totalCharacters m =
       totalCharacters acc + sum_list (map (perFile characters) (inScopeFiles dir files))
     \<and> AggregateMetrics.commentLines m =
       AggregateMetrics.commentLines acc
       + sum_list (map (perFile FileMetrics.commentLines) (inScopeFiles dir files))
     \<and> AggregateMetrics.blankLines m =
       AggregateMetrics.blankLines acc
       + sum_list (map (perFile FileMetrics.blankLines) (inScopeFiles dir files))
     \<and> AggregateMetrics.codeAndCommentLines m =
       AggregateMetrics.codeAndCommentLines acc
       + sum_list (map (perFile FileMetrics.codeAndCommentLines) (inScopeFiles dir files))
     \<and> fileCount m = fileCount acc + length (inScopeFiles dir files)
     \<and> None \<notin> snd ` set (inScopeFiles dir files)"
proof (induction files arbitrary: dir acc m rule: listing_induct)
  case (Directory name sub rest)
  from Directory.prems obtain r where
    r: "forEachFile (path_join dir name) sub zeroMetrics = Inr r"
    and m: "forEachFile dir rest (addDirectory acc r) = Inr m"
    by (auto split: sum.splits)
  from Directory.IH(1) [OF r] Directory.IH(2) [OF m] show ?case
    by (simp add: addDirectory_def zeroMetrics_def image_Un)
next
  case (OtherFile name rd rest)
  show ?case
  proof (cases "isValidFile (path_join dir name)")
    case True
    with OtherFile.prems obtain fm where
      fm: "getFileMetrics (path_join dir name) rd = Inr fm"
      and m: "forEachFile dir rest (addFile acc fm) = Inr m"
      by (auto split: sum.splits)
    from fm have "rd \<noteq> None"
      by (cases rd) (simp_all add: getFileMetrics_def)
    with OtherFile.IH [OF m] True fm show ?thesis
      by (auto simp: addFile_def perFile_def)
  next
    case False
    with OtherFile.prems OtherFile.IH [of dir acc m] show ?thesis
      by simp
  qed
qed simp_all

text \<open>
  C1, as the specification has it: each of the six fields of the file metrics would be
  summed, and the \<open>totalLines\<close> returned would be the sum of the files' \<open>totalLines\<close>.
  A tree with the one file \<open>a.js\<close>, whose single line is a comment, has one line in all,
  and \<open>processDirectory\<close> returns \<open>totalLines = 0\<close>.
\<close>

theorem processDirectory_sums_counterexample:
  "processDirectory ''/r'' (Some [(''a.js'', OtherFile (Some ''// c''))]) =
     Inr \<lparr> AggregateMetrics.totalLines = 0, totalCharacters = 0,
           AggregateMetrics.commentLines = 1, AggregateMetrics.blankLines = 0,
           AggregateMetrics.codeAndCommentLines = 1, fileCount = 1, directoryCount = 0 \<rparr>
   \<and> sum_list (map (perFile FileMetrics.totalLines)
         (inScopeFiles ''/r'' [(''a.js'', OtherFile (Some ''// c''))])) = 1"
  by code_simp

text \<open>
  C1, amended: when \<open>processDirectory\<close> returns, every in-scope file of the subtree was
  read, and the result holds five sums over these files: \<open>totalLines\<close> is the sum of their
  code lines (the field \<open>lines\<close>), \<open>totalCharacters\<close> of their \<open>characters\<close>, and
  \<open>commentLines\<close>, \<open>blankLines\<close> and \<open>codeAndCommentLines\<close> of the fields of the same
  name; \<open>fileCount\<close> is their number. The \<open>totalLines\<close> of the files are not summed.
\<close>

theorem processDirectory_sums:
  "processDirectory dir (Some files) = Inr m \<Longrightarrow>
     AggregateMetrics.totalLines m = sum_list (map (perFile lines) (inScopeFiles dir files))
     \<and> totalCharacters m = sum_list (map (perFile characters) (inScopeFiles dir files))
     \<and> AggregateMetrics.commentLines m =
         sum_list (map (perFile FileMetrics.commentLines) (inScopeFiles dir files))
     \<and> AggregateMetrics.blankLines m =
         sum_list (map (perFile FileMetrics.blankLines) (inScopeFiles dir files))
     \<and> AggregateMetrics.codeAndCommentLines m =
         sum_list (map (perFile FileMetrics.codeAndCommentLines) (inScopeFiles dir files))
     \<and> fileCount m = length (inScopeFiles dir files)
     \<and> None \<notin> snd ` set (inScopeFiles dir files)"
  using forEachFile_sums [of dir files zeroMetrics m]
  by (simp add: zeroMetrics_def)

text \<open>C1, amended, at the example tree: two in-scope files with two code lines between them.\<close>

theorem processDirectory_sums_witness:
  "processDirectory ''/r'' (Some exampleTree) = Inr exampleMetrics
   \<and> sum_list (map (perFile lines) (inScopeFiles ''/r'' exampleTree)) = 2
   \<and> length (inScopeFiles ''/r'' exampleTree) = 2"
proof -
  have h: "processDirectory ''/r'' (Some exampleTree) = Inr exampleMetrics"
    by code_simp
  from processDirectory_sums [OF h] h show ?thesis
    by (simp add: exampleMetrics_def)
qed

subsection \<open>Symbolic links\<close>

lemma forEachFile_withoutLinks:
  "forEachFile dir (withoutLinks files) acc = forEachFile dir files acc"
  by (induction files arbitrary: dir acc rule: listing_induct) (simp_all split: sum.splits)

text \<open>
  C5: a symbolic link, whatever it points to and however deep it lies, adds nothing to
  any counter and is not entered: \<open>processDirectory\<close> gives for a tree what it gives for
  the tree without its links, the error too when it fails. It is defined on every tree,
  so no link makes it run forever.
\<close>

theorem processDirectory_withoutLinks:
  "processDirectory dir (Some (withoutLinks files)) = processDirectory dir (Some files)"
  by (simp add: forEachFile_withoutLinks)

text \<open>C5 at the example tree, whose two links close cycles.\<close>

theorem processDirectory_withoutLinks_witness:
  "withoutLinks exampleTree =
     [(''a.js'', OtherFile (Some ''// c'')),
      (''lib'', Directory (Some
         [(''empty'', Directory (Some [])), (''b.ts'', OtherFile (Some ''x\<newline>y''))])),
      (''README.md'', OtherFile None)]
   \<and> processDirectory ''/r'' (Some (withoutLinks exampleTree)) = Inr exampleMetrics"
proof -
  have "processDirectory ''/r'' (Some exampleTree) = Inr exampleMetrics"
    by code_simp
  then have "processDirectory ''/r'' (Some (withoutLinks exampleTree)) = Inr exampleMetrics"
    by (simp only: processDirectory_withoutLinks [of "''/r''" exampleTree])
  moreover have "withoutLinks exampleTree =
     [(''a.js'', OtherFile (Some ''// c'')),
      (''lib'', Directory (Some
         [(''empty'', Directory (Some [])), (''b.ts'', OtherFile (Some ''x\<newline>y''))])),
      (''README.md'', OtherFile None)]"
    by code_simp
  ultimately show ?thesis by (intro conjI)
qed

subsection \<open>The count of directories\<close>

lemma forEachFile_directoryCount:
  "forEachFile dir files acc = Inr m \<Longrightarrow> directoryCount m = directoryCount acc + subdirCount files"
proof (induction files arbitrary: dir acc m rule: listing_induct)
  case (Directory name sub rest)
  from Directory.prems obtain r where
    r: "forEachFile (path_join dir name) sub zeroMetrics = Inr r"
    and m: "forEachFile dir rest (addDirectory acc r) = Inr m"
    by (auto split: sum.splits)
  from Directory.IH(1) [OF r] Directory.IH(2) [OF m] show ?case
    by (simp add: addDirectory_def zeroMetrics_def)
qed (auto split: sum.splits if_splits simp: addFile_def)

text \<open>
  C6: the \<open>directoryCount\<close> that \<open>processDirectory\<close> returns is the number of
  directories below the root that are not symbolic links, each counted once at whatever
  depth, the root itself not counted.
\<close>

theorem processDirectory_directoryCount:
  "processDirectory dir (Some files) = Inr m \<Longrightarrow> directoryCount m = subdirCount files"
  using forEachFile_directoryCount [of dir files zeroMetrics m]
  by (simp add: zeroMetrics_def)

text \<open>C6 at the example tree: \<open>lib\<close> and \<open>lib/empty\<close>.\<close>

theorem processDirectory_directoryCount_witness:
  "processDirectory ''/r'' (Some exampleTree) = Inr exampleMetrics
   \<and> directoryCount exampleMetrics = subdirCount exampleTree
   \<and> subdirCount exampleTree = 2"
proof -
  have h: "processDirectory ''/r'' (Some exampleTree) = Inr exampleMetrics"
    by code_simp
  have "subdirCount exampleTree = 2"
    by code_simp
  with processDirectory_directoryCount [OF h] h show ?thesis
    by (intro conjI)
qed

subsection \<open>The order of the entries\<close>

text \<open>
  The counters a loop leaves are the counters it started from plus what it leaves when
  started from zero; so a round adds a fixed amount, rounds commute, and the loop is a
  fold of commuting functions over the listing.
\<close>

lemma plusMetrics_zero: "plusMetrics a zeroMetrics = a"
  by (simp add: plusMetrics_def zeroMetrics_def)

lemma plusMetrics_addDirectory:
  "plusMetrics (addDirectory acc r) x = plusMetrics acc (plusMetrics (addDirectory zeroMetrics r) x)"
  by (simp add: addDirectory_def plusMetrics_def zeroMetrics_def)

lemma plusMetrics_addFile:
  "plusMetrics (addFile acc fm) x = plusMetrics acc (plusMetrics (addFile zeroMetrics fm) x)"
  by (simp add: addFile_def plusMetrics_def zeroMetrics_def)

lemma forEachFile_acc:
  "returned (forEachFile dir files acc) =
     map_option (plusMetrics acc) (returned (forEachFile dir files zeroMetrics))"
proof (induction files arbitrary: acc)
  case Nil
  show ?case by (simp add: returned_def plusMetrics_zero)
next
  case (Cons e rest)
  obtain name n where e: "e = (name, n)" by (cases e)
  show ?case
  proof (cases n)
    case LstatThrows
    with e show ?thesis by (simp add: returned_def)
  next
    case (SymbolicLink target)
    with e Cons.IH [of acc] show ?thesis by simp
  next
    case (Directory rd)
    show ?thesis
    proof (cases "processDirectory (path_join dir name) rd")
      case (Inl err)
      with e Directory show ?thesis by (simp add: returned_def)
    next
      case (Inr r)
      have "returned (forEachFile dir rest (addDirectory acc r)) =
          map_option (plusMetrics acc) (returned (forEachFile dir rest (addDirectory zeroMetrics r)))"
        by (subst Cons.IH, subst (2) Cons.IH)
          (cases "returned (forEachFile dir rest zeroMetrics)",
            simp_all add: plusMetrics_addDirectory [of acc r])
      with e Directory Inr show ?thesis by simp
    qed
  next
    case (OtherFile rd)
    show ?thesis
    proof (cases "isValidFile (path_join dir name)")
      case False
      with e OtherFile Cons.IH [of acc] show ?thesis by simp
    next
      case True
      show ?thesis
      proof (cases "getFileMetrics (path_join dir name) rd")
        case (Inl err)
        with e OtherFile True show ?thesis by (simp add: returned_def)
      next
        case (Inr fm)
        have "returned (forEachFile dir rest (addFile acc fm)) =
            map_option (plusMetrics acc) (returned (forEachFile dir rest (addFile zeroMetrics fm)))"
          by (subst Cons.IH, subst (2) Cons.IH)
            (cases "returned (forEachFile dir rest zeroMetrics)",
              simp_all add: plusMetrics_addFile [of acc fm])
        with e OtherFile True Inr show ?thesis by simp
      qed
    qed
  qed
qed

lemma forEachFile_Cons:
  "forEachFile dir (e # rest) acc =
     (case forEachFile dir [e] acc of Inl err \<Rightarrow> Inl err | Inr a \<Rightarrow> forEachFile dir rest a)"
proof -
  obtain name n where e: "e = (name, n)" by (cases e)
  show ?thesis
    unfolding e by (cases n) (simp_all split: sum.splits)
qed

lemma callback_None: "callback dir e None = None"
  by (simp add: callback_def)

lemma callback_Some: "callback dir e (Some acc) = returned (forEachFile dir [e] acc)"
  by (simp add: callback_def)

lemma fold_callback_None: "fold (callback dir) files None = None"
  by (induction files) (simp_all add: callback_None)

lemma returned_forEachFile_fold:
  "returned (forEachFile dir files acc) = fold (callback dir) files (Some acc)"
proof (induction files arbitrary: acc)
  case Nil
  show ?case by (simp add: returned_def)
next
  case (Cons e rest)
  show ?case
  proof (cases "forEachFile dir [e] acc")
    case (Inl err)
    then show ?thesis
      by (simp add: forEachFile_Cons [of dir e rest] callback_Some fold_callback_None
          returned_def)
  next
    case (Inr a)
    with Cons.IH [of a] show ?thesis
      by (simp add: forEachFile_Cons [of dir e rest] callback_Some returned_def)
  qed
qed

lemma callback_plus:
  "callback dir e s =
     (case s of None \<Rightarrow> None
      | Some acc \<Rightarrow> map_option (plusMetrics acc) (returned (forEachFile dir [e] zeroMetrics)))"
proof (cases s)
  case None
  then show ?thesis by (simp add: callback_None)
next
  case (Some acc)
  then show ?thesis
    by (simp add: callback_Some forEachFile_acc [of dir "[e]" acc])
qed

lemma plusMetrics_swap:
  "plusMetrics (plusMetrics a b) c = plusMetrics (plusMetrics a c) b"
  by (simp add: plusMetrics_def)

lemma callback_commute: "callback dir e \<circ> callback dir e' = callback dir e' \<circ> callback dir e"
proof (rule ext)
  fix s
  show "(callback dir e \<circ> callback dir e') s = (callback dir e' \<circ> callback dir e) s"
    by (cases s; cases "returned (forEachFile dir [e] zeroMetrics)";
        cases "returned (forEachFile dir [e'] zeroMetrics)")
      (simp_all add: callback_plus plusMetrics_swap)
qed

lemma forEachFile_mset:
  assumes "mset files = mset files'"
  shows "returned (forEachFile dir files acc) = returned (forEachFile dir files' acc)"
proof -
  have "fold (callback dir) files = fold (callback dir) files'"
    using assms by (intro fold_multiset_equiv callback_commute)
  then show ?thesis
    by (simp add: returned_forEachFile_fold)
qed

lemma forEachFile_reordering:
  "reordering files files' \<Longrightarrow>
     returned (forEachFile dir files' acc) = returned (forEachFile dir files acc)"
proof (induction arbitrary: dir acc rule: reordering.induct)
  case empty
  show ?case by simp
next
  case (entry rest rest' name n)
  have "returned (forEachFile dir ((name, n) # rest') acc)
      = returned (forEachFile dir ((name, n) # rest) acc)"
    by (cases "forEachFile dir [(name, n)] acc")
      (simp_all add: forEachFile_Cons [of dir "(name, n)" rest]
        forEachFile_Cons [of dir "(name, n)" rest'] entry.IH)
  then show ?case .
next
  case (subdirectory sub sub' rest rest' name)
  note sub = subdirectory.IH(1) [of "path_join dir name" zeroMetrics]
  show ?case
  proof (cases "forEachFile (path_join dir name) sub zeroMetrics")
    case (Inl err)
    with sub obtain err' where "forEachFile (path_join dir name) sub' zeroMetrics = Inl err'"
      by (cases "forEachFile (path_join dir name) sub' zeroMetrics") (simp_all add: returned_def)
    with Inl show ?thesis
      by (simp add: returned_def)
  next
    case (Inr r)
    with sub have "forEachFile (path_join dir name) sub' zeroMetrics = Inr r"
      by (cases "forEachFile (path_join dir name) sub' zeroMetrics") (simp_all add: returned_def)
    with Inr subdirectory.IH(2) [of dir "addDirectory acc r"] show ?thesis
      by simp
  qed
next
  case (permute files files' files'')
  from permute.hyps(2) have "returned (forEachFile dir files'' acc) = returned (forEachFile dir files' acc)"
    by (rule forEachFile_mset)
  with permute.IH show ?case by simp
qed

text \<open>
  C7: whatever the order in which each directory lists its entries, \<open>processDirectory\<close>
  returns the same metrics, \<open>fileCount\<close> and \<open>directoryCount\<close> among them; and it fails
  in one order iff it fails in the other.
\<close>

theorem processDirectory_reordering:
  "reordering files files' \<Longrightarrow>
     returned (processDirectory dir (Some files')) = returned (processDirectory dir (Some files))"
  by (simp add: forEachFile_reordering)

text \<open>C7 at the example tree and the same tree listed backwards.\<close>

theorem processDirectory_reordering_witness:
  "reordering exampleTree reorderedTree
   \<and> returned (processDirectory ''/r'' (Some reorderedTree)) = Some exampleMetrics"
proof -
  have "reordering [] []"
    by (rule reordering.empty)
  then have "reordering
      [(''empty'', Directory (Some [])), (''up'', SymbolicLink ''..''),
       (''b.ts'', OtherFile (Some ''x\<newline>y''))]
      [(''empty'', Directory (Some [])), (''up'', SymbolicLink ''..''),
       (''b.ts'', OtherFile (Some ''x\<newline>y''))]"
    by (intro reordering.entry)
  then have lib: "reordering
      [(''empty'', Directory (Some [])), (''up'', SymbolicLink ''..''),
       (''b.ts'', OtherFile (Some ''x\<newline>y''))]
      [(''b.ts'', OtherFile (Some ''x\<newline>y'')), (''up'', SymbolicLink ''..''),
       (''empty'', Directory (Some []))]"
    by (rule reordering.permute) simp
  have "reordering [(''README.md'', OtherFile None)] [(''README.md'', OtherFile None)]"
    by (intro reordering.entry reordering.empty)
  with lib have "reordering
      [(''lib'', Directory (Some
         [(''empty'', Directory (Some [])), (''up'', SymbolicLink ''..''),
          (''b.ts'', OtherFile (Some ''x\<newline>y''))])),
       (''README.md'', OtherFile None)]
      [(''lib'', Directory (Some
         [(''b.ts'', OtherFile (Some ''x\<newline>y'')), (''up'', SymbolicLink ''..''),
          (''empty'', Directory (Some []))])),
       (''README.md'', OtherFile None)]"
    by (rule reordering.subdirectory)
  then have "reordering exampleTree
      [(''a.js'', OtherFile (Some ''// c'')), (''loop'', SymbolicLink ''/r''),
       (''lib'', Directory (Some
         [(''b.ts'', OtherFile (Some ''x\<newline>y'')), (''up'', SymbolicLink ''..''),
          (''empty'', Directory (Some []))])),
       (''README.md'', OtherFile None)]"
    unfolding exampleTree_def by (intro reordering.entry)
  then have r: "reordering exampleTree reorderedTree"
    by (rule reordering.permute) (simp add: reorderedTree_def)
  have "processDirectory ''/r'' (Some exampleTree) = Inr exampleMetrics"
    by code_simp
  with processDirectory_reordering [OF r, of "''/r''"]
  have "returned (processDirectory ''/r'' (Some reorderedTree)) = Some exampleMetrics"
    by (simp add: returned_def)
  with r show ?thesis by (rule conjI)
qed

subsection \<open>Failure\<close>

lemma forEachFile_fails_iff:
  "(\<exists>e. forEachFile dir files acc = Inl e) \<longleftrightarrow> walkFault dir files"
proof (induction files arbitrary: dir acc rule: listing_induct)
  case (Directory name sub rest)
  show ?case
  proof (cases "forEachFile (path_join dir name) sub zeroMetrics")
    case (Inl e)
    with Directory.IH(1) [of "path_join dir name" zeroMetrics] show ?thesis
      by auto
  next
    case (Inr r)
    with Directory.IH(1) [of "path_join dir name" zeroMetrics]
      Directory.IH(2) [of dir "addDirectory acc r"] show ?thesis
      by simp
  qed
next
  case (OtherFile name rd rest)
  show ?case
  proof (cases "isValidFile (path_join dir name)")
    case True
    show ?thesis
    proof (cases rd)
      case None
      with True show ?thesis by (simp add: getFileMetrics_def)
    next
      case (Some content)
      with True OtherFile.IH show ?thesis
        by (simp add: getFileMetrics_def Let_def)
    qed
  next
    case False
    with OtherFile.IH show ?thesis by simp
  qed
qed simp_all

text \<open>
  C9, as the specification has it: \<open>processDirectory\<close> would fail iff the root cannot be
  listed, or a directory below cannot be listed, or an eligible file below cannot be read.
  In a root whose one entry, \<open>README.md\<close>, is gone when \<open>lstatSync\<close> looks at it, none of
  these is so, and the call fails.
\<close>

theorem processDirectory_fails_counterexample:
  "processDirectory ''/r'' (Some [(''README.md'', LstatThrows)]) = Inl (LstatError ''/r/README.md'')
   \<and> \<not> spec_readFault ''/r'' [(''README.md'', LstatThrows)]"
  by code_simp

text \<open>
  C9, amended: \<open>processDirectory\<close> fails, returning an error and no metrics at all, iff
  the root cannot be listed, or \<open>lstatSync\<close> throws for an entry of a directory of the
  walk, or a directory below the root cannot be listed, or an eligible file below it
  cannot be read; otherwise it returns metrics. What was counted before the failure is
  lost.
\<close>

theorem processDirectory_fails_iff:
  "((\<exists>e. processDirectory dir rd = Inl e) \<longleftrightarrow>
      rd = None \<or> (\<exists>files. rd = Some files \<and> walkFault dir files))
   \<and> ((\<exists>m. processDirectory dir rd = Inr m) \<longleftrightarrow>
      \<not> (rd = None \<or> (\<exists>files. rd = Some files \<and> walkFault dir files)))"
proof -
  have fails: "(\<exists>e. processDirectory dir rd = Inl e) \<longleftrightarrow>
      rd = None \<or> (\<exists>files. rd = Some files \<and> walkFault dir files)"
    by (cases rd) (simp_all add: forEachFile_fails_iff)
  have "(\<exists>m. processDirectory dir rd = Inr m) \<longleftrightarrow> \<not> (\<exists>e. processDirectory dir rd = Inl e)"
    by (cases "processDirectory dir rd") simp_all
  with fails show ?thesis by simp
qed

text \<open>
  C9, amended, at a root with a readable eligible file and then an eligible file that
  cannot be read: the call fails, and the first file's counts are in no result.
\<close>

theorem processDirectory_fails_iff_witness:
  "walkFault ''/r'' [(''a.js'', OtherFile (Some ''x'')), (''b.js'', OtherFile None)]
   \<and> returned (processDirectory ''/r''
        (Some [(''a.js'', OtherFile (Some ''x'')), (''b.js'', OtherFile None)])) = None"
proof -
  have w: "walkFault ''/r'' [(''a.js'', OtherFile (Some ''x'')), (''b.js'', OtherFile None)]"
    by code_simp
  with processDirectory_fails_iff
    [of "''/r''" "Some [(''a.js'', OtherFile (Some ''x'')), (''b.js'', OtherFile None)]"]
  obtain e where "processDirectory ''/r''
      (Some [(''a.js'', OtherFile (Some ''x'')), (''b.js'', OtherFile None)]) = Inl e"
    by auto
  then have "returned (processDirectory ''/r''
      (Some [(''a.js'', OtherFile (Some ''x'')), (''b.js'', OtherFile None)])) = None"
    by (simp only: returned_def sum.case)
  with w show ?thesis by (rule conjI)
qed

end
